theory Spec2Isabelle
  imports Main "HOL-Library.Word" "HOL-Library.Monad_Syntax"
begin

unbundle bit_operations_syntax

section \<open>Machine types\<close>

type_synonym u64 = "64 word"
type_synonym u32 = "32 word"
type_synonym u16 = "16 word"

section \<open>Segment table geometry (memory\_table.cuh)\<close>

text \<open>
  A \<open>Block *\<close> is either null or the address of an element of the table's \<open>blocks\<close>
  array, named by its index (the global block id).  The contents of a Block belong to the
  Block primitive (block.cuh) and are not part of this state.
\<close>

datatype block_ptr = nullptr | Block_at nat


text \<open>
  \<open>alloc_table<bytes_per_segment, min_size>\<close>: the two template parameters and the
  fields of the struct.  Pointers into the backing store are 64-bit addresses;
  \<open>memory\<close> is the address of the first byte.  The per-segment arrays are lists indexed
  by the segment id; \<open>active_counts\<close> holds signed 32-bit values (read with \<open>sint\<close>).
\<close>

record alloc_table =
  bytes_per_segment :: u64
  min_size :: u64
  memory :: u64
  num_segments :: u64
  blocks_per_segment :: u64
  chunk_ids :: "u16 list"
  queues :: "block_ptr list"
  queue_counters :: "u32 list"
  queue_free_counters :: "u32 list"
  final_queue_free_counters :: "u32 list"
  active_counts :: "u32 list"
  calloc_mode :: bool
  calloc_counters :: "u32 list"
  calloc_enqueue_position :: "u32 list"
  calloc_enqueue_finished :: "u32 list"

text \<open>\<open>get_p2_from_index\<close>: \<open>(1ULL) << index\<close>.  A shift by 64 or more is undefined in
  the source; \<open>push_bit\<close> yields 0 there.\<close>

definition get_p2_from_index :: "nat \<Rightarrow> u64" where
  "get_p2_from_index index = push_bit index 1"

definition get_tree_alloc_size :: "alloc_table \<Rightarrow> u16 \<Rightarrow> u64" where
  "get_tree_alloc_size t tree = min_size t * get_p2_from_index (unat tree)"

text \<open>Unsigned division of the source; a zero divisor is undefined behaviour there and
  \<open>None\<close> here.\<close>

definition udiv :: "u64 \<Rightarrow> u64 \<Rightarrow> u64 option" where
  "udiv a b = (if b = 0 then None else Some (a div b))"

definition umod :: "u64 \<Rightarrow> u64 \<Rightarrow> u64 option" where
  "umod a b = (if b = 0 then None else Some (a mod b))"

definition get_max_allocations_per_segment :: "alloc_table \<Rightarrow> u64 option" where
  "get_max_allocations_per_segment t = udiv (bytes_per_segment t) (min_size t)"

definition get_segment_memory_start :: "alloc_table \<Rightarrow> u64 \<Rightarrow> u64" where
  "get_segment_memory_start t segment = memory t + bytes_per_segment t * segment"

definition offset_to_allocation :: "alloc_table \<Rightarrow> u64 \<Rightarrow> u16 \<Rightarrow> u64 option" where
  "offset_to_allocation t allocation tree_id = do {
     per_segment \<leftarrow> get_max_allocations_per_segment t;
     segment_id \<leftarrow> udiv allocation per_segment;
     relative_offset \<leftarrow> umod allocation per_segment;
     let segment_mem_start = get_segment_memory_start t segment_id;
     let alloc_size = get_tree_alloc_size t tree_id;
     Some (segment_mem_start + relative_offset * alloc_size)
   }"

definition allocation_to_offset :: "alloc_table \<Rightarrow> u64 \<Rightarrow> u16 \<Rightarrow> u64 option" where
  "allocation_to_offset t alloc tree_id = do {
     let byte_offset = alloc - memory t;
     segment_id \<leftarrow> udiv byte_offset (bytes_per_segment t);
     let segment_start = get_segment_memory_start t segment_id;
     let segment_byte_offset = alloc - segment_start;
     slot \<leftarrow> udiv segment_byte_offset (get_tree_alloc_size t tree_id);
     per_segment \<leftarrow> get_max_allocations_per_segment t;
     Some (slot + segment_id * per_segment)
   }"


section \<open>Bit primitives (veb.cuh, alloc\_utils.cuh)\<close>

text \<open>
  Indices, counts and sizes of the source are \<open>uint64_t\<close>; they are modelled as \<open>nat\<close>
  and every place where the source's arithmetic can leave the 64-bit range is written
  with \<open>wrap64\<close>.  The words of a bitmap layer are \<open>64 word\<close>.  A value \<open>None\<close> of an
  operation means that the source has no defined result there: it reads or writes
  outside an array, or shifts by an amount outside \<open>0..63\<close>.  Every operation is the
  run of one thread with no other thread interfering: an atomic read-modify-write
  returns the word as it was and stores the new one.
\<close>

text \<open>\<open>to_u64 n\<close> is the value of the integer \<open>n\<close> once stored in a \<open>uint64_t\<close>;
  \<open>wrap64\<close> is the same value as an index.  Values that a function returns and that may
  be the sentinel \<open>~0ULL\<close> are kept as \<open>int\<close>.\<close>

definition to_u64 :: "int \<Rightarrow> int" where
  "to_u64 n = n mod 2 ^ 64"

definition wrap64 :: "int \<Rightarrow> nat" where
  "wrap64 n = nat (to_u64 n)"

definition VEB_RESTART_CUTOFF :: nat where
  "VEB_RESTART_CUTOFF = 30"

definition VEB_MAX_ATTEMPTS :: nat where
  "VEB_MAX_ATTEMPTS = 15"

definition MAX_VALUE :: "nat \<Rightarrow> u64" where
  "MAX_VALUE nbits = push_bit nbits 1 - 1"

definition BITMASK :: "nat \<Rightarrow> u64" where
  "BITMASK nbits = (if nbits = 64 then - 1 else MAX_VALUE nbits)"

definition SET_BIT_MASK :: "nat \<Rightarrow> u64" where
  "SET_BIT_MASK index = push_bit index 1"

text \<open>\<open>__popcll\<close>: number of set bits.\<close>

definition popcll :: "u64 \<Rightarrow> nat" where
  "popcll w = length (filter (bit w) [0..<64])"

text \<open>\<open>__ffsll\<close>: one-based position of the least significant set bit, 0 for the zero word.\<close>

definition ffsll :: "u64 \<Rightarrow> int" where
  "ffsll w = (case filter (bit w) [0..<64] of [] \<Rightarrow> 0 | i # _ \<Rightarrow> int i + 1)"

text \<open>\<open>__builtin_clzll\<close>: number of leading zero bits (undefined for 0 in the source;
  64 here).\<close>

definition clzll :: "u64 \<Rightarrow> nat" where
  "clzll w = length (takeWhile (\<lambda>i. \<not> bit w i) (rev [0..<64]))"

text \<open>\<open>__cfcll\<close>: number of contiguous ones in the low-order bits.\<close>

definition cfcll :: "u64 \<Rightarrow> int" where
  "cfcll bs =
     (let popc = popcll bs;
          popc_valid = (popc = 0 \<or> popc = 64)
      in int popc * (if popc_valid then 1 else 0)
         + (ffsll (NOT bs) - 1) * (if \<not> popc_valid then 1 else 0))"

text \<open>The sentinel \<open>~0ULL\<close> returned by \<open>veb_tree::fail()\<close>.\<close>

definition fail :: int where
  "fail = 18446744073709551615"

section \<open>Bitmap layer (struct layer)\<close>

record layer =
  universe_size :: nat
  num_blocks :: nat
  bits :: "u64 list"

definition get_num_blocks :: "nat \<Rightarrow> nat" where
  "get_num_blocks items_in_universe = wrap64 (int items_in_universe - 1) div 64 + 1"

text \<open>The kernel \<open>init_bits\<close>: every thread \<open>tid < items_in_universe\<close> sets its bit.\<close>

definition init_bits :: "u64 list \<Rightarrow> nat \<Rightarrow> u64 list" where
  "init_bits bs items_in_universe =
     fold (\<lambda>tid b. b[tid div 64 := b ! (tid div 64) OR SET_BIT_MASK (tid mod 64)])
          [0..<items_in_universe] bs"

definition layer_generate_on_device :: "nat \<Rightarrow> layer" where
  "layer_generate_on_device items_in_universe =
     (let ext_num_blocks = get_num_blocks items_in_universe;
          dev_bits = init_bits (replicate ext_num_blocks 0) items_in_universe
      in \<lparr>universe_size = items_in_universe, num_blocks = ext_num_blocks, bits = dev_bits\<rparr>)"

text \<open>\<open>atomicOr\<close> / \<open>atomicAnd\<close> on one word: the previous value is returned.\<close>

definition atomicOr :: "layer \<Rightarrow> nat \<Rightarrow> u64 \<Rightarrow> (u64 \<times> layer) option" where
  "atomicOr l high m =
     (if high < length (bits l)
      then Some (bits l ! high, l\<lparr>bits := (bits l)[high := bits l ! high OR m]\<rparr>)
      else None)"

definition atomicAnd :: "layer \<Rightarrow> nat \<Rightarrow> u64 \<Rightarrow> (u64 \<times> layer) option" where
  "atomicAnd l high m =
     (if high < length (bits l)
      then Some (bits l ! high, l\<lparr>bits := (bits l)[high := bits l ! high AND m]\<rparr>)
      else None)"

text \<open>\<open>ldca(&bits[high])\<close>.\<close>

definition ldca :: "layer \<Rightarrow> nat \<Rightarrow> u64 option" where
  "ldca l high = (if high < length (bits l) then Some (bits l ! high) else None)"

definition layer_insert :: "layer \<Rightarrow> nat \<Rightarrow> int \<Rightarrow> (u64 \<times> layer) option" where
  "layer_insert l high low =
     (if 0 \<le> low \<and> low < 64 then atomicOr l high (SET_BIT_MASK (nat low)) else None)"

definition layer_remove :: "layer \<Rightarrow> nat \<Rightarrow> int \<Rightarrow> (u64 \<times> layer) option" where
  "layer_remove l high low =
     (if 0 \<le> low \<and> low < 64 then atomicAnd l high (NOT (SET_BIT_MASK (nat low))) else None)"

definition layer_find_next :: "layer \<Rightarrow> nat \<Rightarrow> int \<Rightarrow> int option" where
  "layer_find_next l high low =
     (if high \<ge> universe_size l then Some (- 1)
      else do {
        w \<leftarrow> ldca l high;
        if low = - 1 then Some (ffsll w - 1)
        else if 0 \<le> low \<and> low < 64
          then Some (ffsll (w AND NOT (BITMASK (nat (low + 1)))) - 1)
          else None
      })"

definition layer_query :: "layer \<Rightarrow> nat \<Rightarrow> int \<Rightarrow> bool option" where
  "layer_query l high low = do {
     w \<leftarrow> ldca l high;
     if 0 \<le> low \<and> low < 64 then Some (w AND SET_BIT_MASK (nat low) \<noteq> 0) else None
   }"


section \<open>Free-index tree (struct veb\_tree)\<close>

record veb_tree =
  seed :: u64
  total_universe :: nat
  num_layers :: int
  original_num_layers :: int
  layers :: "layer list"

text \<open>\<open>layers[layer]\<close>, read and written back; an index outside the array is undefined.\<close>

definition tree_layer :: "veb_tree \<Rightarrow> int \<Rightarrow> layer option" where
  "tree_layer t i =
     (if 0 \<le> i \<and> i < int (length (layers t)) then Some (layers t ! nat i) else None)"

definition set_layer :: "veb_tree \<Rightarrow> int \<Rightarrow> layer \<Rightarrow> veb_tree" where
  "set_layer t i l = t\<lparr>layers := (layers t)[nat i := l]\<rparr>"

text \<open>\<open>generate_on_device\<close>: the layer for the leaves is the last one, every layer above
  has one bit per word of the layer below, and every bit below the universe starts set.\<close>

fun generate_layers :: "nat \<Rightarrow> nat \<Rightarrow> layer list \<Rightarrow> layer list" where
  "generate_layers 0 ext_universe_size host_layers = host_layers"
| "generate_layers (Suc n) ext_universe_size host_layers =
     generate_layers n (wrap64 (int ext_universe_size - 1) div 64 + 1)
       (layer_generate_on_device ext_universe_size # host_layers)"

definition generate_on_device :: "nat \<Rightarrow> u64 \<Rightarrow> veb_tree" where
  "generate_on_device universe ext_seed =
     (let max_height = 64 - int (clzll (of_nat universe));
          ext_num_layers = (max_height - 1) div 6 + 1
      in \<lparr>seed = ext_seed, total_universe = universe, num_layers = ext_num_layers,
          original_num_layers = ext_num_layers,
          layers = generate_layers (nat ext_num_layers) universe []\<rparr>)"

text \<open>\<open>float_up\<close> and \<open>float_down\<close> act on the cursor \<open>(layer, high, low)\<close>.\<close>

definition float_up :: "int \<times> nat \<times> int \<Rightarrow> bool \<times> (int \<times> nat \<times> int)" where
  "float_up c = (case c of (layer, high, low) \<Rightarrow>
     (layer - 1 \<ge> 0, (layer - 1, high div 64, int (high mod 64))))"

definition float_down :: "veb_tree \<Rightarrow> int \<times> nat \<times> int \<Rightarrow> bool \<times> (int \<times> nat \<times> int)" where
  "float_down t c = (case c of (layer, high, low) \<Rightarrow>
     (layer + 1 < num_layers t, (layer + 1, wrap64 (int (wrap64 (int high * 64)) + low), - 1)))"

text \<open>The loop of \<open>remove\<close>: \<open>while (__popcll(old) == 1 && float_up(layer, high, low))\<close>.\<close>

function remove_loop :: "veb_tree \<Rightarrow> u64 \<Rightarrow> int \<Rightarrow> nat \<Rightarrow> int \<Rightarrow> veb_tree option" where
  "remove_loop t old layer high low =
     (if popcll old = 1 \<and> fst (float_up (layer, high, low)) then
        do {
          l \<leftarrow> tree_layer t (layer - 1);
          (old', l') \<leftarrow> layer_remove l (high div 64) (int (high mod 64));
          remove_loop (set_layer t (layer - 1) l') old' (layer - 1) (high div 64)
            (int (high mod 64))
        }
      else Some t)"
  by pat_completeness auto
termination
  by (relation "measure (\<lambda>(t, old, layer, high, low). nat layer)") (auto simp: float_up_def)

declare remove_loop.simps [simp del]

definition veb_remove :: "veb_tree \<Rightarrow> nat \<Rightarrow> (bool \<times> veb_tree) option" where
  "veb_remove t delete_val = do {
     let high = delete_val div 64;
     let low = int (delete_val mod 64);
     let layer = num_layers t - 1;
     l \<leftarrow> tree_layer t layer;
     (old, l') \<leftarrow> layer_remove l high low;
     let t' = set_layer t layer l';
     if old AND SET_BIT_MASK (nat low) = 0 then Some (False, t')
     else do { t'' \<leftarrow> remove_loop t' old layer high low; Some (True, t'') }
   }"

text \<open>The loop of \<open>insert\<close>:
  \<open>while (__popcll(old) == VEB_RESTART_CUTOFF && float_up(layer, high, low))\<close>.\<close>

function insert_loop :: "veb_tree \<Rightarrow> u64 \<Rightarrow> int \<Rightarrow> nat \<Rightarrow> int \<Rightarrow> veb_tree option" where
  "insert_loop t old layer high low =
     (if popcll old = VEB_RESTART_CUTOFF \<and> fst (float_up (layer, high, low)) then
        do {
          l \<leftarrow> tree_layer t (layer - 1);
          (old', l') \<leftarrow> layer_insert l (high div 64) (int (high mod 64));
          insert_loop (set_layer t (layer - 1) l') old' (layer - 1) (high div 64)
            (int (high mod 64))
        }
      else Some t)"
  by pat_completeness auto
termination
  by (relation "measure (\<lambda>(t, old, layer, high, low). nat layer)") (auto simp: float_up_def)

declare insert_loop.simps [simp del]

definition veb_insert :: "veb_tree \<Rightarrow> nat \<Rightarrow> (bool \<times> veb_tree) option" where
  "veb_insert t insert_val = do {
     let high = insert_val div 64;
     let low = int (insert_val mod 64);
     let layer = num_layers t - 1;
     l \<leftarrow> tree_layer t layer;
     (old, l') \<leftarrow> layer_insert l high low;
     let t' = set_layer t layer l';
     if old AND SET_BIT_MASK (nat low) \<noteq> 0 then Some (False, t')
     else do { t'' \<leftarrow> insert_loop t' old layer high low; Some (True, t'') }
   }"

text \<open>The loop of \<open>insert_force_update\<close>:
  \<open>while (__popcll(old) == 0 && float_up(layer, high, low))\<close>.\<close>

function insert_force_update_loop ::
  "veb_tree \<Rightarrow> u64 \<Rightarrow> int \<Rightarrow> nat \<Rightarrow> int \<Rightarrow> veb_tree option" where
  "insert_force_update_loop t old layer high low =
     (if popcll old = 0 \<and> fst (float_up (layer, high, low)) then
        do {
          l \<leftarrow> tree_layer t (layer - 1);
          (old', l') \<leftarrow> layer_insert l (high div 64) (int (high mod 64));
          insert_force_update_loop (set_layer t (layer - 1) l') old' (layer - 1) (high div 64)
            (int (high mod 64))
        }
      else Some t)"
  by pat_completeness auto
termination
  by (relation "measure (\<lambda>(t, old, layer, high, low). nat layer)") (auto simp: float_up_def)

declare insert_force_update_loop.simps [simp del]

definition insert_force_update :: "veb_tree \<Rightarrow> nat \<Rightarrow> (bool \<times> veb_tree) option" where
  "insert_force_update t insert_val = do {
     let high = insert_val div 64;
     let low = int (insert_val mod 64);
     let layer = num_layers t - 1;
     l \<leftarrow> tree_layer t layer;
     (old, l') \<leftarrow> layer_insert l high low;
     let t' = set_layer t layer l';
     if old AND SET_BIT_MASK (nat low) \<noteq> 0 then Some (False, t')
     else do { t'' \<leftarrow> insert_force_update_loop t' old layer high low; Some (True, t'') }
   }"

definition veb_query :: "veb_tree \<Rightarrow> nat \<Rightarrow> bool option" where
  "veb_query t query_val = do {
     l \<leftarrow> tree_layer t (num_layers t - 1);
     layer_query l (query_val div 64) (int (query_val mod 64))
   }"

text \<open>
  \<open>successor\<close>, first loop: float up until some layer has a bit above the cursor.  The
  result \<open>None\<close> inside \<open>Some\<close> is the \<open>return veb_tree::fail()\<close> at layer 0.
\<close>

function successor_up ::
  "veb_tree \<Rightarrow> int \<Rightarrow> nat \<Rightarrow> int \<Rightarrow> (int \<times> nat \<times> int) option option" where
  "successor_up t layer high low = do {
     l \<leftarrow> tree_layer t layer;
     found_idx \<leftarrow> layer_find_next l high low;
     if found_idx = - 1 then
       (if layer = 0 then Some None
        else successor_up t (layer - 1) (high div 64) (int (high mod 64)))
     else Some (Some (layer, high, low))
   }"
  by pat_completeness auto
termination
  by (relation "measure (\<lambda>(t, layer, high, low). nat layer)")
     (auto simp: tree_layer_def split: if_splits)

declare successor_up.simps [simp del]

text \<open>\<open>successor\<close>, second loop and the final lookup in the leaf layer.\<close>

function successor_down :: "veb_tree \<Rightarrow> int \<Rightarrow> nat \<Rightarrow> int \<Rightarrow> int option" where
  "successor_down t layer high low =
     (if layer \<noteq> num_layers t - 1 then
        do {
          l \<leftarrow> tree_layer t layer;
          low' \<leftarrow> layer_find_next l high low;
          if low' = - 1 then Some fail
          else successor_down t (layer + 1) (wrap64 (int (wrap64 (int high * 64)) + low')) (- 1)
        }
      else
        do {
          l \<leftarrow> tree_layer t layer;
          low' \<leftarrow> layer_find_next l high low;
          if low' = - 1 then Some fail
          else Some (to_u64 (to_u64 (int high * 64) + low'))
        })"
  by pat_completeness auto
termination
  by (relation "measure (\<lambda>(t, layer, high, low). length (layers t) - nat layer)")
     (auto simp: tree_layer_def split: if_splits)

declare successor_down.simps [simp del]

definition successor :: "veb_tree \<Rightarrow> nat \<Rightarrow> int option" where
  "successor t query_val = do {
     c \<leftarrow> successor_up t (num_layers t - 1) (query_val div 64) (int (query_val mod 64));
     case c of
       None \<Rightarrow> Some fail
     | Some (layer, high, low) \<Rightarrow> successor_down t layer high low
   }"

text \<open>
  \<open>successor_thorough\<close>: the inner descent stops with \<open>break\<close> on a dead end and the outer
  \<open>while (true)\<close> resumes from the cursor it has reached.  The outer loop carries fuel:
  \<open>None\<close> also stands for a run that has not returned after so many rounds.
\<close>

function thorough_down :: "veb_tree \<Rightarrow> int \<Rightarrow> nat \<Rightarrow> int \<Rightarrow> (int \<times> nat \<times> int) option" where
  "thorough_down t layer high low =
     (if layer \<noteq> num_layers t - 1 then
        do {
          l \<leftarrow> tree_layer t layer;
          low' \<leftarrow> layer_find_next l high low;
          if low' = - 1 then Some (layer, high, low')
          else thorough_down t (layer + 1) (wrap64 (int (wrap64 (int high * 64)) + low')) (- 1)
        }
      else Some (layer, high, low))"
  by pat_completeness auto
termination
  by (relation "measure (\<lambda>(t, layer, high, low). length (layers t) - nat layer)")
     (auto simp: tree_layer_def split: if_splits)

declare thorough_down.simps [simp del]

fun successor_thorough_loop :: "nat \<Rightarrow> veb_tree \<Rightarrow> int \<Rightarrow> nat \<Rightarrow> int \<Rightarrow> int option" where
  "successor_thorough_loop 0 t layer high low = None"
| "successor_thorough_loop (Suc fuel) t layer high low = do {
     c \<leftarrow> successor_up t layer high low;
     case c of
       None \<Rightarrow> Some fail
     | Some (layer1, high1, low1) \<Rightarrow> do {
         (layer2, high2, low2) \<leftarrow> thorough_down t layer1 high1 low1;
         l \<leftarrow> tree_layer t layer2;
         low3 \<leftarrow> layer_find_next l high2 low2;
         if low3 \<noteq> - 1 then Some (to_u64 (to_u64 (int high2 * 64) + low3))
         else successor_thorough_loop fuel t layer2 high2 low3
       }
   }"

definition successor_thorough :: "nat \<Rightarrow> veb_tree \<Rightarrow> nat \<Rightarrow> int option" where
  "successor_thorough fuel t query_val =
     successor_thorough_loop fuel t (num_layers t - 1) (query_val div 64)
       (int (query_val mod 64))"

definition find_first_valid_index :: "nat \<Rightarrow> veb_tree \<Rightarrow> int option" where
  "find_first_valid_index fuel t = do {
     q \<leftarrow> veb_query t 0;
     if q then Some 0 else successor_thorough fuel t 0
   }"


section \<open>Contiguous runs in one layer (layer::gather\_multiple, rollback, return\_multiple)\<close>

text \<open>A left shift of the source; an amount of 64 or more is undefined there.\<close>

definition shl64 :: "u64 \<Rightarrow> nat \<Rightarrow> u64 option" where
  "shl64 w n = (if n < 64 then Some (push_bit n w) else None)"

text \<open>\<open>rollback(start_block, bits_to_set)\<close>.\<close>

function rollback :: "layer \<Rightarrow> nat \<Rightarrow> nat \<Rightarrow> layer option" where
  "rollback l start_block bits_to_set =
     (if bits_to_set > 64 then
        do {
          (old, l') \<leftarrow> atomicOr l start_block (BITMASK 64);
          rollback l' (wrap64 (int start_block + 1)) (bits_to_set - 64)
        }
      else
        do {
          (old, l') \<leftarrow> atomicOr l start_block (BITMASK bits_to_set);
          Some l'
        })"
  by pat_completeness auto
termination
  by (relation "measure (\<lambda>(l, start_block, bits_to_set). bits_to_set)") auto

declare rollback.simps [simp del]

text \<open>
  The inner loop of \<open>gather_multiple\<close>, \<open>while (num_contiguous > 64)\<close>: it claims whole
  words below the starting word.  The result is \<open>(succeeded, layer, start_block,
  num_contiguous)\<close> as the loop leaves them.
\<close>

function gather_whole_blocks ::
  "layer \<Rightarrow> nat \<Rightarrow> nat \<Rightarrow> nat \<Rightarrow> (bool \<times> layer \<times> nat \<times> nat) option" where
  "gather_whole_blocks l start_block num_contiguous num_needed =
     (if num_contiguous > 64 then
        do {
          let start_block' = wrap64 (int start_block - 1);
          (acquired_bits, l1) \<leftarrow> atomicAnd l start_block' 0;
          if popcll acquired_bits \<noteq> 64 then
            do {
              (old, l2) \<leftarrow> atomicOr l1 start_block' acquired_bits;
              l3 \<leftarrow> rollback l2 (wrap64 (int start_block' + 1))
                     (wrap64 (int num_needed - int num_contiguous));
              Some (False, l3, start_block', num_contiguous)
            }
          else gather_whole_blocks l1 start_block' (num_contiguous - 64) num_needed
        }
      else Some (True, l, start_block, num_contiguous))"
  by pat_completeness auto
termination
  by (relation "measure (\<lambda>(l, start_block, num_contiguous, num_needed). num_contiguous)") auto

declare gather_whole_blocks.simps [simp del]

text \<open>
  The outer loop \<open>while (start_block != 0)\<close>.  Each round uses one unit of fuel; without
  fuel the result is \<open>None\<close>.  The arguments are the variables \<open>start_block\<close>,
  \<open>num_contiguous\<close> and \<open>num_needed\<close> as they stand when the loop condition is tested.
\<close>

primrec gather_loop :: "nat \<Rightarrow> layer \<Rightarrow> nat \<Rightarrow> nat \<Rightarrow> nat \<Rightarrow> (int \<times> layer) option" where
  "gather_loop 0 l start_block num_contiguous num_needed = None"
| "gather_loop (Suc fuel) l start_block num_contiguous num_needed =
     (if start_block \<noteq> 0 then
        do {
          w \<leftarrow> ldca l start_block;
          let contig_start = nat (cfcll w);
          if contig_start = 0 then
            gather_loop fuel l (start_block - 1) num_needed num_needed
          else if contig_start \<ge> num_needed then
            do {
              acq_bitmask \<leftarrow> shl64 (BITMASK num_needed) (contig_start - num_needed);
              (acquired_bits, l1) \<leftarrow> atomicAnd l start_block (NOT acq_bitmask);
              if popcll (acquired_bits AND acq_bitmask) = num_needed then
                Some (to_u64 (to_u64 (int start_block * 64)
                               + (int contig_start - int num_needed)), l1)
              else
                do {
                  (old, l2) \<leftarrow> atomicOr l1 start_block (acq_bitmask AND acquired_bits);
                  gather_loop fuel l2 start_block num_needed num_needed
                }
            }
          else
            do {
              (acquired_bits, l1) \<leftarrow> atomicAnd l start_block (NOT (BITMASK contig_start));
              if popcll (acquired_bits AND BITMASK contig_start) = contig_start then
                do {
                  (succeeded, l2, start_block2, num_contiguous2) \<leftarrow>
                    gather_whole_blocks l1 start_block (num_needed - contig_start) num_needed;
                  if \<not> succeeded then
                    gather_loop fuel l2 start_block2 num_contiguous2 num_needed
                  else
                    do {
                      let start_block3 = wrap64 (int start_block2 - 1);
                      final_bitmask \<leftarrow> shl64 (BITMASK num_contiguous2) (64 - num_contiguous2);
                      (final_bits, l3) \<leftarrow> atomicAnd l2 start_block3 (NOT final_bitmask);
                      if popcll (final_bits AND final_bitmask) = num_contiguous2 then
                        Some (to_u64 (to_u64 (int start_block3 * 64) + 64
                                       - int num_contiguous2), l3)
                      else
                        do {
                          (old, l4) \<leftarrow> atomicOr l3 start_block3 (final_bitmask AND final_bits);
                          l5 \<leftarrow> rollback l4 (wrap64 (int start_block3 + 1))
                                 (wrap64 (int num_needed - int num_contiguous2));
                          gather_loop fuel l5 start_block3 num_contiguous2 num_needed
                        }
                    }
                }
              else
                do {
                  (old, l2) \<leftarrow> atomicOr l1 start_block (acquired_bits AND BITMASK contig_start);
                  gather_loop fuel l2 start_block num_needed num_needed
                }
            }
        }
      else
        do {
          l' \<leftarrow> rollback l 0 (wrap64 (int num_needed - int num_contiguous));
          Some (fail, l')
        })"

definition layer_gather_multiple :: "nat \<Rightarrow> layer \<Rightarrow> nat \<Rightarrow> (int \<times> layer) option" where
  "layer_gather_multiple fuel l num_contiguous =
     gather_loop fuel l (wrap64 (int (num_blocks l) - 1)) num_contiguous num_contiguous"

text \<open>\<open>layer::return_multiple(start_index, num_indices)\<close>.\<close>

function return_loop :: "layer \<Rightarrow> nat \<Rightarrow> nat \<Rightarrow> nat \<Rightarrow> layer option" where
  "return_loop l block_index block_start num_indices =
     (if block_start < 64 then
        (if num_indices + block_start > 64 then
           do {
             let num_added = 64 - block_start;
             bitmask \<leftarrow> shl64 (BITMASK num_added) block_start;
             (old, l') \<leftarrow> atomicOr l block_index bitmask;
             return_loop l' (wrap64 (int block_index + 1)) 0 (num_indices - num_added)
           }
         else
           do {
             bitmask \<leftarrow> shl64 (BITMASK num_indices) block_start;
             (old, l') \<leftarrow> atomicOr l block_index bitmask;
             Some l'
           })
      else None)"
  by pat_completeness auto
termination
  by (relation "measure (\<lambda>(l, block_index, block_start, num_indices). num_indices)") auto

declare return_loop.simps [simp del]

definition layer_return_multiple :: "layer \<Rightarrow> nat \<Rightarrow> nat \<Rightarrow> layer option" where
  "layer_return_multiple l start_index num_indices =
     return_loop l (start_index div 64) (start_index mod 64) num_indices"

section \<open>Contiguous runs in the tree (veb\_tree::gather\_multiple, return\_multiple)\<close>

text \<open>\<open>maybe_remove_layer_bits(layer, start_bit, bits_to_check)\<close>; \<open>limit\<close> is
  \<open>start_bit + bits_to_check\<close>.\<close>

function maybe_remove_loop :: "veb_tree \<Rightarrow> int \<Rightarrow> nat \<Rightarrow> nat \<Rightarrow> veb_tree option" where
  "maybe_remove_loop t layer working_bit limit =
     (if working_bit < limit then
        do {
          below \<leftarrow> tree_layer t (layer + 1);
          w \<leftarrow> ldca below working_bit;
          t' \<leftarrow> (if w = 0 then
                   do {
                     l \<leftarrow> tree_layer t layer;
                     (old, l') \<leftarrow> layer_remove l (working_bit div 64) (int (working_bit mod 64));
                     Some (set_layer t layer l')
                   }
                 else Some t);
          maybe_remove_loop t' layer (working_bit + 1) limit
        }
      else Some t)"
  by pat_completeness auto
termination
  by (relation "measure (\<lambda>(t, layer, working_bit, limit). limit - working_bit)") auto

declare maybe_remove_loop.simps [simp del]

definition maybe_remove_layer_bits :: "veb_tree \<Rightarrow> int \<Rightarrow> nat \<Rightarrow> nat \<Rightarrow> veb_tree option" where
  "maybe_remove_layer_bits t layer start_bit bits_to_check =
     maybe_remove_loop t layer start_bit (start_bit + bits_to_check)"

text \<open>\<open>maybe_return_layer_bits(layer, start_bit, bits_to_check)\<close>.\<close>

function maybe_return_loop :: "veb_tree \<Rightarrow> int \<Rightarrow> nat \<Rightarrow> nat \<Rightarrow> veb_tree option" where
  "maybe_return_loop t layer working_bit limit =
     (if working_bit < limit then
        do {
          below \<leftarrow> tree_layer t (layer + 1);
          w \<leftarrow> ldca below working_bit;
          t' \<leftarrow> (if popcll w = 64 then
                   do {
                     l \<leftarrow> tree_layer t layer;
                     (old, l') \<leftarrow> layer_insert l (working_bit div 64) (int (working_bit mod 64));
                     Some (set_layer t layer l')
                   }
                 else Some t);
          maybe_return_loop t' layer (working_bit + 1) limit
        }
      else Some t)"
  by pat_completeness auto
termination
  by (relation "measure (\<lambda>(t, layer, working_bit, limit). limit - working_bit)") auto

declare maybe_return_loop.simps [simp del]

definition maybe_return_layer_bits :: "veb_tree \<Rightarrow> int \<Rightarrow> nat \<Rightarrow> nat \<Rightarrow> veb_tree option" where
  "maybe_return_layer_bits t layer start_bit bits_to_check =
     maybe_return_loop t layer start_bit (start_bit + bits_to_check)"

text \<open>The loop \<open>for (int i = num_layers-2; i >= 0; i--)\<close> of \<open>gather_multiple\<close>.\<close>

function gather_upper_layers :: "veb_tree \<Rightarrow> int \<Rightarrow> nat \<Rightarrow> nat \<Rightarrow> veb_tree option" where
  "gather_upper_layers t i found num_contiguous =
     (if i \<ge> 0 then
        do {
          let tread_high = (found + num_contiguous - 1) div 64 + 1;
          let tread_low = found div 64;
          t' \<leftarrow> maybe_remove_layer_bits t i tread_low (tread_high - tread_low);
          gather_upper_layers t' (i - 1) tread_low (tread_high - tread_low)
        }
      else Some t)"
  by pat_completeness auto
termination
  by (relation "measure (\<lambda>(t, i, found, num_contiguous). nat (i + 1))") auto

declare gather_upper_layers.simps [simp del]

definition gather_multiple :: "nat \<Rightarrow> veb_tree \<Rightarrow> nat \<Rightarrow> (int \<times> veb_tree) option" where
  "gather_multiple fuel t num_contiguous = do {
     leaf \<leftarrow> tree_layer t (num_layers t - 1);
     (found, leaf') \<leftarrow> layer_gather_multiple fuel leaf num_contiguous;
     let t1 = set_layer t (num_layers t - 1) leaf';
     if found \<noteq> fail then
       do {
         t2 \<leftarrow> gather_upper_layers t1 (num_layers t - 2) (nat found) num_contiguous;
         Some (found, t2)
       }
     else Some (fail, t1)
   }"

text \<open>The loop \<open>for (int i = num_layers-2; i >= 0; i--)\<close> of \<open>return_multiple\<close>.\<close>

function return_upper_layers :: "veb_tree \<Rightarrow> int \<Rightarrow> nat \<Rightarrow> nat \<Rightarrow> veb_tree option" where
  "return_upper_layers t i start_bit num_contiguous =
     (if i \<ge> 0 then
        do {
          let tread_high = (start_bit + num_contiguous - 1) div 64 + 1;
          let tread_low = start_bit div 64;
          t' \<leftarrow> maybe_return_layer_bits t i tread_low (tread_high - tread_low);
          return_upper_layers t' (i - 1) tread_low (tread_high - tread_low)
        }
      else Some t)"
  by pat_completeness auto
termination
  by (relation "measure (\<lambda>(t, i, start_bit, num_contiguous). nat (i + 1))") auto

declare return_upper_layers.simps [simp del]

definition return_multiple :: "veb_tree \<Rightarrow> nat \<Rightarrow> nat \<Rightarrow> veb_tree option" where
  "return_multiple t start_bit num_contiguous = do {
     leaf \<leftarrow> tree_layer t (num_layers t - 1);
     leaf' \<leftarrow> layer_return_multiple leaf start_bit num_contiguous;
     return_upper_layers (set_layer t (num_layers t - 1) leaf') (num_layers t - 2)
       start_bit num_contiguous
   }"


section \<open>Segment table: binding, counters and the block queue (memory\_table.cuh)\<close>

text \<open>\<open>get_blocks_per_segment(tree)\<close>: \<open>bytes_per_segment / (tree_alloc_size * 4096)\<close>.\<close>

definition get_blocks_per_segment :: "alloc_table \<Rightarrow> u16 \<Rightarrow> u64 option" where
  "get_blocks_per_segment t tree = udiv (bytes_per_segment t) (get_tree_alloc_size t tree * 4096)"

text \<open>\<open>set_tree_id\<close>: \<open>atomicCAS(&chunk_ids[segment], ~0, tree_id) == ~0\<close>.\<close>

definition set_tree_id :: "alloc_table \<Rightarrow> nat \<Rightarrow> u16 \<Rightarrow> (bool \<times> alloc_table) option" where
  "set_tree_id t segment tree_id =
     (if segment < length (chunk_ids t) then
        (if chunk_ids t ! segment = - 1
         then Some (True, t\<lparr>chunk_ids := (chunk_ids t)[segment := tree_id]\<rparr>)
         else Some (False, t))
      else None)"


text \<open>\<open>reset_tree_id\<close>: \<open>atomicCAS(&chunk_ids[segment], tree_id, ~0) == tree_id\<close>.\<close>

definition reset_tree_id :: "alloc_table \<Rightarrow> nat \<Rightarrow> u16 \<Rightarrow> (bool \<times> alloc_table) option" where
  "reset_tree_id t segment tree_id =
     (if segment < length (chunk_ids t) then
        (if chunk_ids t ! segment = tree_id
         then Some (True, t\<lparr>chunk_ids := (chunk_ids t)[segment := - 1]\<rparr>)
         else Some (False, t))
      else None)"


definition return_slot_to_segment :: "alloc_table \<Rightarrow> nat \<Rightarrow> (u32 \<times> alloc_table) option" where
  "return_slot_to_segment t segment =
     (if segment < length (active_counts t)
      then Some (active_counts t ! segment,
                 t\<lparr>active_counts := (active_counts t)[segment := active_counts t ! segment + 1]\<rparr>)
      else None)"

text \<open>\<open>all_blocks_free(int active_count, uint64_t blocks_per_segment)\<close>: the comparison
  converts the signed count to 64 bits.\<close>

definition all_blocks_free :: "u32 \<Rightarrow> u64 \<Rightarrow> bool" where
  "all_blocks_free active_count blocks = (scast active_count = blocks - 2)"



text \<open>\<open>atomicExch\<close> on one slot of \<open>queues\<close>.\<close>

definition exchange_queue_slot ::
  "alloc_table \<Rightarrow> nat \<Rightarrow> block_ptr \<Rightarrow> (block_ptr \<times> alloc_table) option" where
  "exchange_queue_slot t i b =
     (if i < length (queues t)
      then Some (queues t ! i, t\<lparr>queues := (queues t)[i := b]\<rparr>)
      else None)"

text \<open>The loop \<open>for (int i = 0; i < num_blocks; i++) queues[segment*blocks_per_segment+i] =
  nullptr\<close> of \<open>setup_segment\<close>.\<close>

fun clear_queue :: "alloc_table \<Rightarrow> nat \<Rightarrow> nat \<Rightarrow> alloc_table option" where
  "clear_queue t base 0 = Some t"
| "clear_queue t base (Suc n) = do {
     t' \<leftarrow> clear_queue t base n;
     (old, t'') \<leftarrow> exchange_queue_slot t' (base + n) nullptr;
     Some t''
   }"

definition store_counter :: "u32 list \<Rightarrow> nat \<Rightarrow> u32 \<Rightarrow> u32 list option" where
  "store_counter xs segment v = (if segment < length xs then Some (xs[segment := v]) else None)"

definition setup_segment :: "alloc_table \<Rightarrow> nat \<Rightarrow> u16 \<Rightarrow> (bool \<times> alloc_table) option" where
  "setup_segment t segment tree_id = do {
     (did_set, t1) \<leftarrow> set_tree_id t segment tree_id;
     if \<not> did_set then Some (False, t1)
     else do {
       blocks \<leftarrow> get_blocks_per_segment t1 tree_id;
       let num_blocks = (ucast blocks :: u32);
       t2 \<leftarrow> clear_queue t1 (unat (of_nat segment * blocks_per_segment t1))
               (nat (sint num_blocks));
       cc \<leftarrow> (if calloc_mode t2 then store_counter (calloc_counters t2) segment 0
               else Some (calloc_counters t2));
       cp \<leftarrow> (if calloc_mode t2 then store_counter (calloc_enqueue_position t2) segment 0
               else Some (calloc_enqueue_position t2));
       cf \<leftarrow> (if calloc_mode t2 then store_counter (calloc_enqueue_finished t2) segment 0
               else Some (calloc_enqueue_finished t2));
       qc \<leftarrow> store_counter (queue_counters t2) segment 0;
       qf \<leftarrow> store_counter (queue_free_counters t2) segment 0;
       fq \<leftarrow> store_counter (final_queue_free_counters t2) segment 0;
       ac \<leftarrow> store_counter (active_counts t2) segment (num_blocks - 1);
       Some (True, t2\<lparr>calloc_counters := cc, calloc_enqueue_position := cp,
                      calloc_enqueue_finished := cf, queue_counters := qc,
                      queue_free_counters := qf, final_queue_free_counters := fq,
                      active_counts := ac\<rparr>)
     }
   }"


text \<open>
  \<open>finish_freeing_block(segment, num_blocks)\<close>:
  \<open>atomicCAS(&active_counts[segment], num_blocks-1, -1) == num_blocks-1\<close>; the compare
  value is truncated to \<open>int\<close> and the old value is sign-extended for the comparison.
\<close>

definition finish_freeing_block :: "alloc_table \<Rightarrow> nat \<Rightarrow> u64 \<Rightarrow> (bool \<times> alloc_table) option" where
  "finish_freeing_block t segment blocks = do {
     (return_id, t1) \<leftarrow> return_slot_to_segment t segment;
     if all_blocks_free return_id blocks then
       (let old = active_counts t1 ! segment;
            t2 = (if old = ucast (blocks - 1)
                  then t1\<lparr>active_counts := (active_counts t1)[segment := - 1]\<rparr> else t1)
        in if (scast old :: u64) = blocks - 1 then Some (True, t2) else Some (False, t2))
     else Some (False, t1)
   }"



section \<open>Retry loops of the allocator (global\_allocator.cuh)\<close>

definition REQUEST_BLOCK_MAX_ATTEMPTS :: int where
  "REQUEST_BLOCK_MAX_ATTEMPTS = 1000"

definition GALLATIN_MALLOC_LOOP_ATTEMPTS :: nat where
  "GALLATIN_MALLOC_LOOP_ATTEMPTS = 10"

definition GALLATIN_MALLOC_BLOCK_ATTEMPTS :: nat where
  "GALLATIN_MALLOC_BLOCK_ATTEMPTS = 500"

definition GALLATIN_MALLOC_SEGMENT_ATTEMPTS :: nat where
  "GALLATIN_MALLOC_SEGMENT_ATTEMPTS = 500"

text \<open>
  The trees, the lock word and the segment table are shared with every other thread, so
  what the calls made in one round of \<open>request_new_block_from_tree\<close> return is decided
  by the schedule.  A schedule gives, for the round with a given number, the value of
  \<open>find_random_valid_index()\<close>, of the first \<open>acquire_tree_lock(tree)\<close>, of
  \<open>gather_new_segment(tree)\<close>, and the pointer and \<open>last_block\<close> flag of
  \<open>get_block\<close>.
\<close>

record schedule =
  find_random_valid_index_result :: "nat \<Rightarrow> int"
  acquire_tree_lock_result :: "nat \<Rightarrow> bool"
  gather_new_segment_result :: "nat \<Rightarrow> int"
  get_block_result :: "nat \<Rightarrow> block_ptr \<times> bool"

text \<open>
  \<open>request_new_block_from_tree\<close>: the loop \<open>while (attempts < REQUEST_BLOCK_MAX_ATTEMPTS)\<close>.
  \<open>round\<close> counts the rounds begun so far and \<open>attempts\<close> is the variable of the source.
  With \<open>fuel\<close> rounds allowed, \<open>None\<close> says that the function has not returned after that
  many rounds.  The calls made when \<open>last_block\<close> is set do not change what is returned.
\<close>

primrec request_loop :: "nat \<Rightarrow> schedule \<Rightarrow> nat \<Rightarrow> int \<Rightarrow> block_ptr option" where
  "request_loop 0 s round attempts = None"
| "request_loop (Suc fuel) s round attempts =
     (if attempts < REQUEST_BLOCK_MAX_ATTEMPTS then
        (let segment = find_random_valid_index_result s round;
             get_and_return =
               (let new_block = fst (get_block_result s round) in
                if new_block \<noteq> nullptr then Some new_block
                else request_loop fuel s (round + 1) attempts)
         in
         if segment = fail then
           (if acquire_tree_lock_result s round then
              (let success = gather_new_segment_result s round in
               if success = - 1 then request_loop fuel s (round + 1) (attempts + 1)
               else get_and_return)
            else request_loop fuel s (round + 1) attempts)
         else get_and_return)
      else Some nullptr)"

definition request_new_block_from_tree :: "nat \<Rightarrow> schedule \<Rightarrow> block_ptr option" where
  "request_new_block_from_tree fuel s = request_loop fuel s 0 0"

text \<open>
  The three retry loops of \<open>malloc\<close> have one shape:
  \<open>while (offset == ~0ULL && attempt_counter < BOUND) { offset = callee(); attempt_counter += 1; }\<close>.
  \<open>results k\<close> is what the \<open>k\<close>-th call of the callee returns; the loop returns the final
  \<open>offset\<close> and \<open>attempt_counter\<close>.
\<close>

function malloc_retry_loop :: "nat \<Rightarrow> (nat \<Rightarrow> int) \<Rightarrow> int \<Rightarrow> nat \<Rightarrow> int \<times> nat" where
  "malloc_retry_loop bound results offset attempt_counter =
     (if offset = fail \<and> attempt_counter < bound
      then malloc_retry_loop bound results (results attempt_counter) (attempt_counter + 1)
      else (offset, attempt_counter))"
  by pat_completeness auto
termination
  by (relation "measure (\<lambda>(bound, results, offset, attempt_counter). bound - attempt_counter)")
     auto

declare malloc_retry_loop.simps [simp del]

text \<open>
  The rounds of \<open>request_new_block_from_tree\<close> by outcome.  In a lock-busy round the
  sub-tree is empty and the lock is not acquired (\<open>continue\<close> with \<open>attempts\<close> unchanged);
  in a counted round \<open>gather_new_segment\<close> fails (\<open>attempts++\<close>); in a block-less round
  \<open>get_block\<close> is reached and returns \<open>nullptr\<close> (the loop starts over with \<open>attempts\<close>
  unchanged).
\<close>

definition lock_busy_round :: "schedule \<Rightarrow> nat \<Rightarrow> bool" where
  "lock_busy_round s k =
     (find_random_valid_index_result s k = fail \<and> \<not> acquire_tree_lock_result s k)"

definition counted_round :: "schedule \<Rightarrow> nat \<Rightarrow> bool" where
  "counted_round s k =
     (find_random_valid_index_result s k = fail \<and> acquire_tree_lock_result s k
      \<and> gather_new_segment_result s k = - 1)"

definition blockless_round :: "schedule \<Rightarrow> nat \<Rightarrow> bool" where
  "blockless_round s k =
     (\<not> lock_busy_round s k \<and> \<not> counted_round s k \<and> fst (get_block_result s k) = nullptr)"

definition uncounted_rounds :: "schedule \<Rightarrow> nat \<Rightarrow> nat \<Rightarrow> nat" where
  "uncounted_rounds s from n =
     length (filter (\<lambda>k. lock_busy_round s k \<or> blockless_round s k) [from..<from + n])"


section \<open>What the claims speak about\<close>

text \<open>The leaf layer is the last layer; \<open>present t i\<close> says that index \<open>i\<close> is in the tree,
  that is, its bit in the leaf layer is set.\<close>

definition leaf_bits :: "veb_tree \<Rightarrow> u64 list" where
  "leaf_bits t = bits (last (layers t))"

definition layer_bit :: "u64 list \<Rightarrow> nat \<Rightarrow> bool" where
  "layer_bit ws i = (i div 64 < length ws \<and> bit (ws ! (i div 64)) (i mod 64))"

definition present :: "veb_tree \<Rightarrow> nat \<Rightarrow> bool" where
  "present t i = layer_bit (leaf_bits t) i"

text \<open>
  The summary invariant between a layer and the layer below it: the lower layer has a
  word for an index exactly when the upper layer has storage for its bit, and a bit of
  the upper layer is 1 iff the word it summarises exists and is not zero (some bit of the
  group below is 1).
\<close>

definition summary_ok :: "u64 list \<Rightarrow> u64 list \<Rightarrow> bool" where
  "summary_ok upper lower =
     (length lower \<le> 64 * length upper \<and>
      list_all (\<lambda>j. layer_bit upper j = (j < length lower \<and> lower ! j \<noteq> 0))
        [0..<64 * length upper])"

text \<open>
  A well-formed tree: \<open>num_layers\<close> layers, the top layer is one word, every layer's
  \<open>num_blocks\<close> counts its words and does not exceed its \<open>universe_size\<close> (as
  \<open>get_num_blocks\<close> gives for a universe of at least one item), the leaf layer has a bit
  for every index of the universe and can be indexed with 64 bits, and the summary
  invariant holds between neighbouring layers.
\<close>

definition tree_shape :: "veb_tree \<Rightarrow> bool" where
  "tree_shape t =
     (layers t \<noteq> [] \<and> num_layers t = int (length (layers t)) \<and>
      length (bits (layers t ! 0)) = 1 \<and>
      total_universe t \<le> 64 * length (leaf_bits t) \<and>
      64 * int (length (leaf_bits t)) \<le> 2 ^ 64 \<and>
      list_all (\<lambda>l. num_blocks l = length (bits l) \<and> length (bits l) \<le> universe_size l)
        (layers t))"

definition tree_invariant :: "veb_tree \<Rightarrow> bool" where
  "tree_invariant t =
     (tree_shape t \<and>
      list_all (\<lambda>i. summary_ok (bits (layers t ! i)) (bits (layers t ! (i + 1))))
        [0..<length (layers t) - 1])"

section \<open>Concrete states\<close>

text \<open>Scenario A: universe 256 (two layers), containing exactly 3, 64, 65 and 200.\<close>

definition scenario_tree :: veb_tree where
  "scenario_tree =
     \<lparr>seed = 0, total_universe = 256, num_layers = 2, original_num_layers = 2,
      layers = [\<lparr>universe_size = 4, num_blocks = 1, bits = [11]\<rparr>,
                \<lparr>universe_size = 256, num_blocks = 4, bits = [8, 3, 0, 256]\<rparr>]\<rparr>"

text \<open>The empty tree of universe 256, as \<open>boot_segment_trees\<close> leaves a sub-tree: every
  index removed.\<close>

definition empty_tree :: veb_tree where
  "empty_tree =
     \<lparr>seed = 0, total_universe = 256, num_layers = 2, original_num_layers = 2,
      layers = [\<lparr>universe_size = 4, num_blocks = 1, bits = [0]\<rparr>,
                \<lparr>universe_size = 256, num_blocks = 4, bits = [0, 0, 0, 0]\<rparr>]\<rparr>"

text \<open>A tree of universe 128 whose second leaf word holds the free run 64, 65, 66 and whose
  first leaf word holds index 0.\<close>

definition run_tree :: veb_tree where
  "run_tree =
     \<lparr>seed = 0, total_universe = 128, num_layers = 2, original_num_layers = 2,
      layers = [\<lparr>universe_size = 2, num_blocks = 1, bits = [3]\<rparr>,
                \<lparr>universe_size = 128, num_blocks = 2, bits = [1, 7]\<rparr>]\<rparr>"

text \<open>A layer of 128 bits in which only the indices 64..68 are free.\<close>

definition short_run_layer :: layer where
  "short_run_layer = \<lparr>universe_size = 128, num_blocks = 2, bits = [0, 31]\<rparr>"


text \<open>The schedule in which the sub-tree stays empty and another thread holds the tree lock
  for good.\<close>

definition lock_held_schedule :: schedule where
  "lock_held_schedule =
     \<lparr>find_random_valid_index_result = (\<lambda>round. fail),
      acquire_tree_lock_result = (\<lambda>round. False),
      gather_new_segment_result = (\<lambda>round. - 1),
      get_block_result = (\<lambda>round. (nullptr, False))\<rparr>"

text \<open>The schedule in which the sub-tree always offers a segment that yields no block
  (its last block is taken and the thread that took it has not detached it yet).\<close>

definition exhausted_segment_schedule :: schedule where
  "exhausted_segment_schedule =
     \<lparr>find_random_valid_index_result = (\<lambda>round. 0),
      acquire_tree_lock_result = (\<lambda>round. True),
      gather_new_segment_result = (\<lambda>round. - 1),
      get_block_result = (\<lambda>round. (nullptr, False))\<rparr>"

text \<open>The schedule of an allocator that is full: no segment in the sub-tree, the lock is
  free, and the global tree has no segment to give.\<close>

definition full_schedule :: schedule where
  "full_schedule =
     \<lparr>find_random_valid_index_result = (\<lambda>round. fail),
      acquire_tree_lock_result = (\<lambda>round. True),
      gather_new_segment_result = (\<lambda>round. - 1),
      get_block_result = (\<lambda>round. (nullptr, False))\<rparr>"

text \<open>The tree that \<open>generate_on_device\<close> builds for a universe of 100 indices: every index
  below 100 is present and the 28 high bits of the last leaf word are clear.\<close>

definition fresh_tree :: veb_tree where
  "fresh_tree =
     \<lparr>seed = 0, total_universe = 100, num_layers = 2, original_num_layers = 2,
      layers = [\<lparr>universe_size = 2, num_blocks = 1, bits = [3]\<rparr>,
                \<lparr>universe_size = 100, num_blocks = 2,
                 bits = [18446744073709551615, 68719476735]\<rparr>]\<rparr>"

text \<open>Two trees with the same geometry: the same fields and, layer by layer, the same
  sizes and the same number of words.  Only the words may differ.\<close>

definition same_frame :: "veb_tree \<Rightarrow> veb_tree \<Rightarrow> bool" where
  "same_frame t t' =
     (seed t' = seed t \<and> total_universe t' = total_universe t \<and> num_layers t' = num_layers t \<and>
      original_num_layers t' = original_num_layers t \<and>
      map (\<lambda>l. (universe_size l, num_blocks l, length (bits l))) (layers t')
        = map (\<lambda>l. (universe_size l, num_blocks l, length (bits l))) (layers t))"


section \<open>Facts about 64-bit words\<close>

lemma unat_of_nat64: "n < 2 ^ 64 \<Longrightarrow> unat (of_nat n :: u64) = n"
  by (simp add: unat_of_nat)

lemma unat_mult_nowrap:
  fixes a b :: u64
  assumes "unat a * unat b < 2 ^ 64"
  shows "unat (a * b) = unat a * unat b"
  using assms unat_mult_lem[of a b] by simp

lemma unat_ne0: "0 < unat (w :: u64) \<Longrightarrow> w \<noteq> 0"
  by auto


section \<open>Offsets and pointers\<close>

lemma unat_p2: "n < 64 \<Longrightarrow> unat (get_p2_from_index n) = 2 ^ n"
proof -
  assume n: "n < 64"
  have "get_p2_from_index n = of_nat (2 ^ n)" by (simp add: get_p2_from_index_def)
  moreover have "(2::nat) ^ n < 2 ^ 64" using n by (rule power_strict_increasing) simp
  ultimately show ?thesis using unat_of_nat64[of "2 ^ n"] by simp
qed

text \<open>
  Claim C10.  For an allocation offset whose segment index
  (\<open>offset / (bytes_per_segment / min_size)\<close>) is below \<open>num_segments\<close> and whose
  within-segment slot index is below \<open>bytes_per_segment / (min_size * 2^tree_id)\<close>,
  \<open>offset_to_allocation\<close> followed by \<open>allocation_to_offset\<close> with the same
  \<open>tree_id\<close> gives the offset back, and neither function divides by zero.  The table's
  backing store (\<open>num_segments\<close> segments of \<open>bytes_per_segment\<close> bytes) is
  addressable with 64 bits.  The statement holds for every \<open>tree_id\<close> that admits such a
  slot, in particular for those below \<open>num_trees\<close>.
\<close>

theorem offset_allocation_roundtrip:
  fixes t :: alloc_table and off :: u64 and tree_id :: u16
  assumes seg0: "unat off div (unat (bytes_per_segment t) div unat (min_size t))
                    < unat (num_segments t)"
  assumes slot0: "unat off mod (unat (bytes_per_segment t) div unat (min_size t))
                    < unat (bytes_per_segment t) div (unat (min_size t) * 2 ^ unat tree_id)"
  assumes mem0: "unat (num_segments t) * unat (bytes_per_segment t) < 2 ^ 64"
  shows "\<exists>p. offset_to_allocation t off tree_id = Some p
            \<and> allocation_to_offset t p tree_id = Some off"
proof -
  define B where "B = unat (bytes_per_segment t)"
  define m where "m = unat (min_size t)"
  define M where "M = B div m"
  have seg: "unat off div M < unat (num_segments t)" using seg0 by (simp add: M_def B_def m_def)
  have slot: "unat off mod M < B div (m * 2 ^ unat tree_id)"
    using slot0 by (simp add: M_def B_def m_def)
  have mem: "unat (num_segments t) * B < 2 ^ 64" using mem0 by (simp add: B_def)
  define A where "A = m * 2 ^ unat tree_id"
  define s where "s = unat off div M"
  define r where "r = unat off mod M"
  have Apos: "0 < A" using slot unfolding A_def by (cases "m * 2 ^ unat tree_id = 0") auto
  have rA: "r < B div A" using slot by (simp add: r_def A_def)
  have AB: "A \<le> B"
  proof (rule ccontr)
    assume "\<not> A \<le> B" hence "B div A = 0" by simp
    thus False using rA by simp
  qed
  have mpos: "0 < m" using Apos by (simp add: A_def)
  have mA: "m \<le> A" by (simp add: A_def)
  have mB: "m \<le> B" using mA AB by simp
  have Mpos: "0 < M" using mB mpos by (simp add: M_def div_greater_zero_iff)
  have Bpos: "0 < B" using AB Apos by simp
  have Blt: "B < 2 ^ 64" unfolding B_def using unsigned_less[of "bytes_per_segment t", where ?'a=nat] by simp
  have Alt: "A < 2 ^ 64" using AB Blt by simp
  have rAB: "r * A + A \<le> B"
  proof -
    have "Suc r \<le> B div A" using rA by simp
    hence "Suc r * A \<le> B div A * A" by (rule mult_le_mono1)
    also have "\<dots> \<le> B" by simp
    finally show ?thesis by (simp add: add.commute)
  qed
  have sB: "s * B + B \<le> unat (num_segments t) * B"
  proof -
    have "Suc s \<le> unat (num_segments t)" using seg by (simp add: s_def)
    hence "Suc s * B \<le> unat (num_segments t) * B" by (rule mult_le_mono1)
    thus ?thesis by (simp add: add.commute)
  qed
  have tot: "s * B + r * A < 2 ^ 64" using rAB sB mem Apos by linarith
  have t64: "unat tree_id < 64"
  proof (rule ccontr)
    assume "\<not> unat tree_id < 64"
    hence "64 \<le> unat tree_id" by simp
    hence "(2::nat) ^ 64 \<le> 2 ^ unat tree_id" by (rule power_increasing) simp
    moreover have "(2::nat) ^ unat tree_id \<le> m * 2 ^ unat tree_id"
      using mpos by simp
    ultimately have "(2::nat) ^ 64 \<le> A" unfolding A_def by (rule le_trans)
    thus False using Alt by simp
  qed
  have asz: "unat (get_tree_alloc_size t tree_id) = A"
    unfolding get_tree_alloc_size_def
    using unat_mult_nowrap[of "min_size t" "get_p2_from_index (unat tree_id)"] Alt
    by (simp add: unat_p2[OF t64] A_def m_def)
  have off: "unat off = s * M + r" by (simp add: s_def r_def)
  have perseg: "get_max_allocations_per_segment t = Some (of_nat M)"
    using mpos unfolding get_max_allocations_per_segment_def udiv_def M_def B_def m_def
    by (auto simp: word_arith_nat_div)
  have Mlt: "M < 2 ^ 64" using Blt div_le_dividend[of B m] unfolding M_def by linarith
  have uM: "unat (of_nat M :: u64) = M" using Mlt by (rule unat_of_nat64)
  have Mne: "(of_nat M :: u64) \<noteq> 0" using uM Mpos unat_ne0 by metis
  have segid: "udiv off (of_nat M) = Some (of_nat s)"
    using Mne uM by (simp add: udiv_def word_arith_nat_div s_def)
  have rel: "umod off (of_nat M) = Some (of_nat r)"
    using Mne uM by (simp add: umod_def word_arith_nat_mod r_def)
  define p where "p = memory t + bytes_per_segment t * of_nat s + of_nat r * get_tree_alloc_size t tree_id"
  have o2a: "offset_to_allocation t off tree_id = Some p"
    by (simp add: offset_to_allocation_def perseg segid rel get_segment_memory_start_def p_def)
  have bo: "p - memory t = of_nat (s * B + r * A)"
    unfolding p_def B_def asz[symmetric] by (simp add: algebra_simps)
  have ubo: "unat (p - memory t) = s * B + r * A"
    unfolding bo using tot by (rule unat_of_nat64)
  have "r * A < B" using rAB Apos by linarith
  hence dv: "(s * B + r * A) div B = s" using Bpos by simp
  have Bne: "bytes_per_segment t \<noteq> 0" using Bpos unat_ne0 unfolding B_def by blast
  have seg2: "udiv (p - memory t) (bytes_per_segment t) = Some (of_nat s)"
    using Bne by (simp add: udiv_def word_arith_nat_div ubo dv B_def[symmetric])
  have sbo: "p - get_segment_memory_start t (of_nat s) = of_nat (r * A)"
    unfolding p_def get_segment_memory_start_def asz[symmetric] by simp
  have rAlt: "r * A < 2 ^ 64" using tot by simp
  have Ane: "get_tree_alloc_size t tree_id \<noteq> 0" using Apos asz unat_ne0 by metis
  have urA: "unat (of_nat r * of_nat A :: u64) = r * A" using unat_of_nat64[OF rAlt] by simp
  have slot2: "udiv (p - get_segment_memory_start t (of_nat s)) (get_tree_alloc_size t tree_id) = Some (of_nat r)"
    using Ane Apos by (simp add: udiv_def word_arith_nat_div sbo asz urA)
  have fin: "(of_nat r :: u64) + of_nat s * of_nat M = off"
  proof -
    have "(of_nat r :: u64) + of_nat s * of_nat M = of_nat (unat off)" unfolding off by simp
    thus ?thesis by simp
  qed
  have a2o: "allocation_to_offset t p tree_id = Some off"
    by (simp add: allocation_to_offset_def seg2 slot2 perseg fin Let_def)
  show ?thesis using o2a a2o by blast
qed

theorem offset_allocation_roundtrip_witness:
  "(let t = \<lparr>bytes_per_segment = 16777216, min_size = 16, memory = 4096,
              num_segments = 4, blocks_per_segment = 256, chunk_ids = [], queues = [],
              queue_counters = [], queue_free_counters = [], final_queue_free_counters = [],
              active_counts = [], calloc_mode = False, calloc_counters = [],
              calloc_enqueue_position = [], calloc_enqueue_finished = []\<rparr>;
        off = (2097157 :: u64); tree_id = (3 :: u16)
    in unat off div (unat (bytes_per_segment t) div unat (min_size t)) < unat (num_segments t)
     \<and> unat off mod (unat (bytes_per_segment t) div unat (min_size t))
          < unat (bytes_per_segment t) div (unat (min_size t) * 2 ^ unat tree_id)
     \<and> unat (num_segments t) * unat (bytes_per_segment t) < 2 ^ 64
     \<and> offset_to_allocation t off tree_id = Some 33559168
     \<and> allocation_to_offset t 33559168 tree_id = Some off)"
  using offset_allocation_roundtrip
    [of 2097157 "\<lparr>bytes_per_segment = 16777216, min_size = 16, memory = 4096,
              num_segments = 4, blocks_per_segment = 256, chunk_ids = [], queues = [],
              queue_counters = [], queue_free_counters = [], final_queue_free_counters = [],
              active_counts = [], calloc_mode = False, calloc_counters = [],
              calloc_enqueue_position = [], calloc_enqueue_finished = []\<rparr>" 3]
  by (simp add: offset_to_allocation_def allocation_to_offset_def udiv_def umod_def
      get_max_allocations_per_segment_def get_segment_memory_start_def
      get_tree_alloc_size_def get_p2_from_index_def)


section \<open>Runs on concrete states\<close>

lemma scenario_tree_invariant: "tree_invariant scenario_tree"
  by code_simp

lemma empty_tree_invariant: "tree_invariant empty_tree"
  by code_simp

lemma run_tree_invariant: "tree_invariant run_tree"
  by code_simp

lemma fresh_tree_invariant: "tree_invariant fresh_tree"
  by code_simp

lemma generate_fresh_tree: "generate_on_device 100 0 = fresh_tree"
  by code_simp

text \<open>
  Claim C5 fails on the code.  In a layer of two words where only indices 64..68 are free,
  \<open>gather_multiple(100)\<close> claims the five bits, finds word 0 not full, rolls the five
  bits back and leaves the loop with \<open>start_block = 0\<close>; the \<open>rollback(0, num_needed -
  num_contiguous)\<close> after the loop then sets bits 0..4 of word 0, which were clear before
  the call.  The call returns the failure sentinel and the layer has changed.
\<close>

theorem gather_failure_changes_layer:
  "bits short_run_layer = [0, 31]
   \<and> layer_gather_multiple 2 short_run_layer 100
       = Some (fail, short_run_layer\<lparr>bits := [31, 31]\<rparr>)"
  by code_simp


section \<open>Handing out blocks\<close>




section \<open>Retry loops\<close>

lemma lock_held_loops:
  "attempts < REQUEST_BLOCK_MAX_ATTEMPTS \<Longrightarrow>
     request_loop fuel lock_held_schedule round attempts = None"
  by (induction fuel arbitrary: round) (simp_all add: lock_held_schedule_def)

lemma exhausted_segment_loops:
  "attempts < REQUEST_BLOCK_MAX_ATTEMPTS \<Longrightarrow>
     request_loop fuel exhausted_segment_schedule round attempts = None"
  by (induction fuel arbitrary: round) (simp_all add: exhausted_segment_schedule_def fail_def)

lemma upt_step: "[from..<from + Suc n] = from # [Suc from..<Suc from + n]"
  by (simp add: upt_rec)

lemma request_loop_returns:
  "uncounted_rounds s round n + nat (REQUEST_BLOCK_MAX_ATTEMPTS - attempts) \<le> n \<Longrightarrow>
     \<exists>r. request_loop (Suc n) s round attempts = Some r"
proof (induction n arbitrary: round attempts)
  case 0
  then show ?case by (simp add: uncounted_rounds_def)
next
  case (Suc n)
  show ?case
  proof (cases "attempts < REQUEST_BLOCK_MAX_ATTEMPTS")
    case False
    then show ?thesis by simp
  next
    case att: True
    have split: "uncounted_rounds s round (Suc n) =
        (if lock_busy_round s round \<or> blockless_round s round then 1 else 0)
         + uncounted_rounds s (Suc round) n"
      unfolding uncounted_rounds_def upt_step by simp
    consider (busy) "lock_busy_round s round"
      | (counted) "counted_round s round"
      | (blockless) "blockless_round s round"
      | (block) "\<not> lock_busy_round s round" "\<not> counted_round s round"
                "fst (get_block_result s round) \<noteq> nullptr"
      by (auto simp: blockless_round_def)
    then show ?thesis
    proof cases
      case busy
      have "uncounted_rounds s (Suc round) n + nat (REQUEST_BLOCK_MAX_ATTEMPTS - attempts) \<le> n"
        using Suc.prems busy by (simp add: split)
      from Suc.IH[OF this] obtain r where "request_loop (Suc n) s (Suc round) attempts = Some r" ..
      then show ?thesis using att busy
        by (subst request_loop.simps) (simp add: lock_busy_round_def Let_def)
    next
      case counted
      have nb: "\<not> lock_busy_round s round" "\<not> blockless_round s round"
        using counted by (auto simp: lock_busy_round_def counted_round_def blockless_round_def)
      have "uncounted_rounds s (Suc round) n + nat (REQUEST_BLOCK_MAX_ATTEMPTS - (attempts + 1)) \<le> n"
        using Suc.prems nb att by (simp add: split)
      from Suc.IH[OF this] obtain r where
        "request_loop (Suc n) s (Suc round) (attempts + 1) = Some r" ..
      then show ?thesis using att counted
        by (subst request_loop.simps) (simp add: counted_round_def Let_def)
    next
      case blockless
      have "uncounted_rounds s (Suc round) n + nat (REQUEST_BLOCK_MAX_ATTEMPTS - attempts) \<le> n"
        using Suc.prems blockless by (simp add: split)
      from Suc.IH[OF this] obtain r where "request_loop (Suc n) s (Suc round) attempts = Some r" ..
      then show ?thesis using att blockless
        by (subst request_loop.simps)
           (auto simp: blockless_round_def lock_busy_round_def counted_round_def Let_def)
    next
      case block
      then show ?thesis using att
        by (subst request_loop.simps)
           (auto simp: lock_busy_round_def counted_round_def Let_def)
    qed
  qed
qed

lemma malloc_retry_loop_bound:
  "attempt_counter \<le> bound \<Longrightarrow>
     snd (malloc_retry_loop bound results offset attempt_counter) \<le> bound
     \<and> (fst (malloc_retry_loop bound results offset attempt_counter) = fail \<longrightarrow>
          offset = fail \<and> snd (malloc_retry_loop bound results offset attempt_counter) = bound)"
proof (induction bound results offset attempt_counter rule: malloc_retry_loop.induct)
  case (1 bound results offset attempt_counter)
  show ?case
  proof (cases "offset = fail \<and> attempt_counter < bound")
    case True
    then show ?thesis using 1 by (subst (1 2 3) malloc_retry_loop.simps) auto
  next
    case False
    then show ?thesis using 1 by (subst (1 2 3) malloc_retry_loop.simps) auto
  qed
qed

text \<open>
  Claim C8, as stated, fails: with the sub-tree empty and the tree lock held by another
  thread for good, \<open>request_new_block_from_tree\<close> takes the branch that leaves
  \<open>attempts\<close> unchanged in every round and has not returned after any number of rounds.
\<close>

theorem request_new_block_unbounded:
  "\<not> (\<exists>fuel r. request_new_block_from_tree fuel lock_held_schedule = Some r)"
  by (simp add: request_new_block_from_tree_def lock_held_loops REQUEST_BLOCK_MAX_ATTEMPTS_def)


text \<open>
  Claim C8, amended.  \<open>attempts\<close> counts the rounds in which \<open>gather_new_segment\<close>
  fails, and only those.  Under every schedule \<open>request_new_block_from_tree\<close> has returned
  (a block or \<open>nullptr\<close>) once 1000 rounds have begun that are neither lock-busy nor
  block-less; lock-busy and block-less rounds are not counted.  Each retry loop of
  \<open>malloc\<close> calls its callee at most as many times as its bound says, and gives up with
  the sentinel only when the bound is reached.
\<close>

theorem retry_loops_bounded:
  assumes "uncounted_rounds s 0 n + 1000 \<le> n"
  shows "(\<exists>r. request_new_block_from_tree (Suc n) s = Some r)
       \<and> snd (malloc_retry_loop bound results fail 0) \<le> bound
       \<and> (fst (malloc_retry_loop bound results fail 0) = fail \<longrightarrow>
            snd (malloc_retry_loop bound results fail 0) = bound)"
proof -
  have "uncounted_rounds s 0 n + nat (REQUEST_BLOCK_MAX_ATTEMPTS - 0) \<le> n"
    using assms by (simp add: REQUEST_BLOCK_MAX_ATTEMPTS_def)
  then have "\<exists>r. request_loop (Suc n) s 0 0 = Some r" by (rule request_loop_returns)
  then show ?thesis
    using malloc_retry_loop_bound[of 0 bound results fail]
    unfolding request_new_block_from_tree_def by blast
qed

theorem retry_loops_bounded_witness:
  "uncounted_rounds full_schedule 0 1000 + 1000 \<le> 1000
   \<and> (\<exists>r. request_new_block_from_tree (Suc 1000) full_schedule = Some r)
   \<and> snd (malloc_retry_loop GALLATIN_MALLOC_BLOCK_ATTEMPTS (\<lambda>k. fail) fail 0)
        \<le> GALLATIN_MALLOC_BLOCK_ATTEMPTS"
proof -
  have u: "uncounted_rounds full_schedule 0 1000 = 0"
    by (simp add: uncounted_rounds_def lock_busy_round_def blockless_round_def
        counted_round_def full_schedule_def)
  then have h: "uncounted_rounds full_schedule 0 1000 + 1000 \<le> 1000" by simp
  show ?thesis
    using retry_loops_bounded[OF h, of GALLATIN_MALLOC_BLOCK_ATTEMPTS "\<lambda>k. fail"] h by blast
qed


end
